theory Spec2Isabelle
  imports Main
begin

section \<open>The chat service over browser-local storage (src/services/firebase.ts)\<close>

text \<open>
  The service keeps every room and message in one JSON text stored under one key of
  \<^verbatim>\<open>localStorage\<close>. Each operation reads the whole table (\<^verbatim>\<open>getRooms\<close>), changes it in
  memory and writes it back (\<^verbatim>\<open>saveRooms\<close>). The artificial delays
  (\<^verbatim>\<open>await new Promise(resolve => setTimeout(resolve, ...))\<close>) only postpone the body of an
  operation; the body then runs to its end without another suspension point, so an
  operation is one function from the state before to the state after. What the source
  takes from its environment (\<^verbatim>\<open>Date.now()\<close>, \<^verbatim>\<open>Math.random().toString(36)\<close>) is an argument.
\<close>

subsection \<open>Data (src/types.ts)\<close>

text \<open>
  \<^verbatim>\<open>ChatMessage { id; text; username; timestamp }\<close> and
  \<^verbatim>\<open>RoomData { createdAt; messages?: Record<string, ChatMessage> }\<close>.
  The fields \<open>id\<close> and \<open>text\<close> carry a prime because the plain names are taken in
  Isabelle. Timestamps are the integers that \<^verbatim>\<open>Date.now()\<close> returns.
\<close>

record ChatMessage =
  id' :: string
  text' :: string
  username :: string
  timestamp :: int

text \<open>
  A JavaScript object with string keys is the list of its own properties in the order in
  which \<^verbatim>\<open>Object.values\<close> and \<^verbatim>\<open>JSON.stringify\<close> enumerate them: keys that are array
  indices first, by ascending number, then every other key in the order of creation.
\<close>

type_synonym 'v object = "(string \<times> 'v) list"

type_synonym message_table = "ChatMessage object"

record RoomData =
  createdAt :: int
  messages :: "message_table option"

type_synonym root_table = "RoomData object"

subsection \<open>Own properties of an object\<close>

definition is_digit :: "char \<Rightarrow> bool" where
  "is_digit c \<longleftrightarrow> c \<in> set ''0123456789''"

definition digit_value :: "char \<Rightarrow> nat" where
  "digit_value c = of_char c - of_char (CHR ''0'')"

definition decimal_value :: "string \<Rightarrow> nat" where
  "decimal_value k = foldl (\<lambda>n c. 10 * n + digit_value c) 0 k"

text \<open>
  An array index is the canonical decimal numeral of an integer from 0 to \<open>2^32 - 2\<close>:
  digits only, no leading zero except for \<open>0\<close> itself.
\<close>

definition is_array_index :: "string \<Rightarrow> bool" where
  "is_array_index k \<longleftrightarrow>
     k \<noteq> [] \<and> list_all is_digit k \<and> (k = ''0'' \<or> hd k \<noteq> CHR ''0'')
     \<and> decimal_value k < 4294967295"

text \<open>Where a new array-index key goes: behind the array indices that are smaller.\<close>

fun insert_index :: "string \<Rightarrow> 'v \<Rightarrow> 'v object \<Rightarrow> 'v object" where
  "insert_index k v [] = [(k, v)]"
| "insert_index k v ((k', v') # ps) =
     (if is_array_index k' \<and> decimal_value k' < decimal_value k
      then (k', v') # insert_index k v ps
      else (k, v) # (k', v') # ps)"

text \<open>Assigning to a key the object already owns keeps the key's place.\<close>

fun replace_prop :: "string \<Rightarrow> 'v \<Rightarrow> 'v object \<Rightarrow> 'v object" where
  "replace_prop k v [] = []"
| "replace_prop k v ((k', v') # ps) =
     (if k' = k then (k, v) # ps else (k', v') # replace_prop k v ps)"

text \<open>
  \<^verbatim>\<open>obj[k] = v\<close> on a plain object, for a key other than \<^verbatim>\<open>__proto__\<close> (every key the
  service assigns is one: see \<open>createRoom\<close> and \<open>messageId_not_proto\<close>).
\<close>

definition set_prop :: "string \<Rightarrow> 'v \<Rightarrow> 'v object \<Rightarrow> 'v object" where
  "set_prop k v ps =
     (if k \<in> set (map fst ps) then replace_prop k v ps
      else if is_array_index k then insert_index k v ps
      else ps @ [(k, v)])"

text \<open>\<^verbatim>\<open>Object.values(obj)\<close>.\<close>

definition Object_values :: "'v object \<Rightarrow> 'v list" where
  "Object_values ps = map snd ps"

subsection \<open>The storage area and the JSON text under the service's key\<close>

definition STORAGE_KEY :: string where
  "STORAGE_KEY = ''firechat_rooms''"

text \<open>
  The text stored under \<open>STORAGE_KEY\<close>, by what the source does with it: the empty string
  (falsy, never parsed), a text that \<^verbatim>\<open>JSON.parse\<close> rejects, or the JSON text of a table.
  \<^verbatim>\<open>getRooms\<close> declares its result a \<^verbatim>\<open>Record<string, any>\<close> and the service reads every
  entry as a \<^verbatim>\<open>RoomData\<close>; a text that parses to something else is not part of this model.
\<close>

datatype blob = Empty_text | Malformed | Encoded root_table

datatype js_error = SecurityError | SyntaxError | QuotaExceededError

text \<open>
  \<open>item\<close> is what is stored under the key (\<open>None\<close>: \<^verbatim>\<open>getItem\<close> returns \<^verbatim>\<open>null\<close>);
  \<open>disabled\<close>: the browser refuses access to the storage area; \<open>full\<close>: the quota is
  used up, so that a write is refused.
\<close>

record local_storage =
  item :: "blob option"
  disabled :: bool
  full :: bool

definition localStorage_getItem :: "local_storage \<Rightarrow> js_error + blob option" where
  "localStorage_getItem s = (if disabled s then Inl SecurityError else Inr (item s))"

definition localStorage_setItem :: "blob \<Rightarrow> local_storage \<Rightarrow> js_error + local_storage" where
  "localStorage_setItem b s =
     (if disabled s then Inl SecurityError
      else if full s then Inl QuotaExceededError
      else Inr (s\<lparr>item := Some b\<rparr>))"

definition JSON_parse :: "blob \<Rightarrow> js_error + root_table" where
  "JSON_parse b = (case b of Encoded t \<Rightarrow> Inr t | _ \<Rightarrow> Inl SyntaxError)"

definition JSON_stringify :: "root_table \<Rightarrow> blob" where
  "JSON_stringify rooms = Encoded rooms"

subsection \<open>What every object inherits\<close>

text \<open>
  \<^verbatim>\<open>{}\<close> and the result of \<^verbatim>\<open>JSON.parse\<close> are ordinary objects: a property they do not own
  is looked up in \<^verbatim>\<open>Object.prototype\<close>. That object has eleven function-valued members and
  the accessor \<^verbatim>\<open>__proto__\<close>, which returns \<^verbatim>\<open>Object.prototype\<close> itself.
\<close>

definition function_members :: "string list" where
  "function_members =
     [''constructor'', ''__defineGetter__'', ''__defineSetter__'', ''hasOwnProperty'',
      ''__lookupGetter__'', ''__lookupSetter__'', ''isPrototypeOf'',
      ''propertyIsEnumerable'', ''toString'', ''valueOf'', ''toLocaleString'']"

text \<open>
  These built-in objects are extensible, and \<open>sendMessage\<close> can give them a
  \<^verbatim>\<open>messages\<close> property. The realm records it: \<open>prototype_messages\<close> is the own property
  \<^verbatim>\<open>messages\<close> of \<^verbatim>\<open>Object.prototype\<close> (which every object without its own then
  inherits), \<open>function_messages\<close> the own property \<^verbatim>\<open>messages\<close> of each function member,
  by the member's name. \<open>stray\<close> lists the assignments \<open>(c, k, v)\<close> of a property \<open>k\<close> with
  value \<open>v\<close> to a message object \<open>c\<close>, which the types do not foresee.
\<close>

record realm =
  prototype_messages :: "message_table option"
  function_messages :: "message_table object"
  stray :: "(ChatMessage \<times> string \<times> ChatMessage) list"

definition pristine :: realm where
  "pristine = \<lparr>prototype_messages = None, function_messages = [], stray = []\<rparr>"

text \<open>The value of \<^verbatim>\<open>rooms[roomId]\<close>.\<close>

datatype room_ref =
  Undefined
  | Room_object RoomData
  | Object_prototype
  | Function_member string
  | Prototype_messages message_table

definition get_room :: "realm \<Rightarrow> root_table \<Rightarrow> string \<Rightarrow> room_ref" where
  "get_room r rooms roomId =
     (case map_of rooms roomId of
        Some room \<Rightarrow> Room_object room
      | None \<Rightarrow>
          if roomId = ''__proto__'' then Object_prototype
          else if roomId \<in> set function_members then Function_member roomId
          else if roomId = ''messages'' then
            (case prototype_messages r of
               Some m \<Rightarrow> Prototype_messages m
             | None \<Rightarrow> Undefined)
          else Undefined)"

text \<open>Every value but \<^verbatim>\<open>undefined\<close> is an object here, hence truthy.\<close>

definition truthy :: "room_ref \<Rightarrow> bool" where
  "truthy v \<longleftrightarrow> v \<noteq> Undefined"

subsection \<open>Reading and writing the table\<close>

text \<open>
  The state of one browser tab: the storage area, the realm, what was written with
  \<^verbatim>\<open>console.error\<close>, and the alerts shown to the user.
\<close>

record world =
  localStorage :: local_storage
  realm :: realm
  console :: "string list"
  alerts :: "string list"

text \<open>
  \<^verbatim>\<open>
  const getRooms = (): Record<string, any> => {
    try {
      const stored = localStorage.getItem(STORAGE_KEY);
      return stored ? JSON.parse(stored) : {};
    } catch (e) {
      console.error("Storage read error", e);
      return {};
    }
  };
  \<close>
\<close>

definition getRooms :: "world \<Rightarrow> root_table \<times> world" where
  "getRooms w =
     (let caught = ([], w\<lparr>console := console w @ [''Storage read error'']\<rparr>) in
      case localStorage_getItem (localStorage w) of
        Inl e \<Rightarrow> caught
      | Inr stored \<Rightarrow>
          (case stored of
             None \<Rightarrow> ([], w)
           | Some b \<Rightarrow>
               if b = Empty_text then ([], w)
               else (case JSON_parse b of
                       Inl e \<Rightarrow> caught
                     | Inr rooms \<Rightarrow> (rooms, w))))"

text \<open>
  \<^verbatim>\<open>
  const saveRooms = (rooms: Record<string, any>) => {
    try {
      localStorage.setItem(STORAGE_KEY, JSON.stringify(rooms));
    } catch (e) {
      console.error("Storage save error", e);
      alert("Local storage is full or disabled. Chat may not save.");
    }
  };
  \<close>
\<close>

definition saveRooms :: "root_table \<Rightarrow> world \<Rightarrow> world" where
  "saveRooms rooms w =
     (case localStorage_setItem (JSON_stringify rooms) (localStorage w) of
        Inl e \<Rightarrow>
          w\<lparr>console := console w @ [''Storage save error''],
            alerts := alerts w @ [''Local storage is full or disabled. Chat may not save.'']\<rparr>
      | Inr s \<Rightarrow> w\<lparr>localStorage := s\<rparr>)"

subsection \<open>Rooms\<close>

text \<open>
  \<^verbatim>\<open>
  export const createRoom = async (roomId: string): Promise<boolean> => {
    await new Promise(resolve => setTimeout(resolve, 500));
    const rooms = getRooms();
    if (rooms[roomId]) {
      return false; // Collision
    }
    rooms[roomId] = { createdAt: Date.now(), messages: {} };
    saveRooms(rooms);
    return true;
  };
  \<close>
  The assignment is reached only when \<^verbatim>\<open>rooms[roomId]\<close> is \<^verbatim>\<open>undefined\<close>, so \<open>roomId\<close> is
  neither \<^verbatim>\<open>__proto__\<close> nor any other inherited name and the assignment creates an own
  property.
\<close>

definition createRoom :: "string \<Rightarrow> int \<Rightarrow> world \<Rightarrow> bool \<times> world" where
  "createRoom roomId now w =
     (let (rooms, w1) = getRooms w in
      if truthy (get_room (realm w1) rooms roomId) then (False, w1)
      else
        let rooms' = set_prop roomId \<lparr>createdAt = now, messages = Some []\<rparr> rooms
        in (True, saveRooms rooms' w1))"

text \<open>
  \<^verbatim>\<open>
  export const checkRoomExists = async (roomId: string): Promise<boolean> => {
    await new Promise(resolve => setTimeout(resolve, 300));
    const rooms = getRooms();
    return !!rooms[roomId];
  };
  \<close>
\<close>

definition checkRoomExists :: "string \<Rightarrow> world \<Rightarrow> bool \<times> world" where
  "checkRoomExists roomId w =
     (let (rooms, w1) = getRooms w in (truthy (get_room (realm w1) rooms roomId), w1))"

subsection \<open>Messages\<close>

text \<open>\<^verbatim>\<open>Number.prototype.toString(36)\<close> on an integer: digits \<open>0\<close> to \<open>9\<close>, then \<open>a\<close> to \<open>z\<close>.\<close>

definition digit36 :: "nat \<Rightarrow> char" where
  "digit36 d = ''0123456789abcdefghijklmnopqrstuvwxyz'' ! d"

function digits36 :: "nat \<Rightarrow> string" where
  "digits36 n = (if n < 36 then [digit36 n] else digits36 (n div 36) @ [digit36 (n mod 36)])"
  by pat_completeness auto
termination
  by (relation "measure id") auto

declare digits36.simps [simp del]

definition toString36 :: "int \<Rightarrow> string" where
  "toString36 i = (if i < 0 then CHR ''-'' # digits36 (nat (- i)) else digits36 (nat i))"

text \<open>
  The value of \<^verbatim>\<open>rooms[roomId].messages\<close>, with the object that holds the table: the room's
  own table, the own table of a function member, the table of \<^verbatim>\<open>Object.prototype\<close>
  (its own, or inherited from it), or, where \<^verbatim>\<open>rooms[roomId]\<close> is the table of
  \<^verbatim>\<open>Object.prototype\<close> and that table has an entry named \<^verbatim>\<open>messages\<close>, that message.
\<close>

datatype messages_ref =
  Absent
  | Of_room message_table
  | Of_function string message_table
  | Of_prototype message_table
  | Message_object ChatMessage

definition inherited_messages :: "realm \<Rightarrow> messages_ref" where
  "inherited_messages r =
     (case prototype_messages r of None \<Rightarrow> Absent | Some m \<Rightarrow> Of_prototype m)"

text \<open>The source reads \<^verbatim>\<open>.messages\<close> only behind a truthiness test of \<^verbatim>\<open>rooms[roomId]\<close>.\<close>

definition get_messages :: "realm \<Rightarrow> room_ref \<Rightarrow> messages_ref" where
  "get_messages r target =
     (case target of
        Undefined \<Rightarrow> Absent
      | Room_object room \<Rightarrow>
          (case messages room of Some m \<Rightarrow> Of_room m | None \<Rightarrow> inherited_messages r)
      | Object_prototype \<Rightarrow> inherited_messages r
      | Function_member k \<Rightarrow>
          (case map_of (function_messages r) k of
             Some m \<Rightarrow> Of_function k m
           | None \<Rightarrow> inherited_messages r)
      | Prototype_messages mp \<Rightarrow>
          (case map_of mp ''messages'' of
             Some c \<Rightarrow> Message_object c
           | None \<Rightarrow> inherited_messages r))"

text \<open>
  \<^verbatim>\<open>rooms[roomId].messages = {}\<close>, executed when \<^verbatim>\<open>rooms[roomId].messages\<close> is
  \<^verbatim>\<open>undefined\<close>: the object \<^verbatim>\<open>rooms[roomId]\<close> gets an own, empty table.
\<close>

definition init_messages :: "string \<Rightarrow> root_table \<times> realm \<Rightarrow> root_table \<times> realm" where
  "init_messages roomId heap =
     (let (rooms, r) = heap in
      case get_room r rooms roomId of
        Room_object room \<Rightarrow> (set_prop roomId (room\<lparr>messages := Some []\<rparr>) rooms, r)
      | Object_prototype \<Rightarrow> (rooms, r\<lparr>prototype_messages := Some []\<rparr>)
      | Function_member k \<Rightarrow>
          (rooms, r\<lparr>function_messages := set_prop k [] (function_messages r)\<rparr>)
      | _ \<Rightarrow> (rooms, r))"

text \<open>\<^verbatim>\<open>rooms[roomId].messages[messageId] = newMessage\<close>.\<close>

definition put_message ::
  "string \<Rightarrow> string \<Rightarrow> ChatMessage \<Rightarrow> root_table \<times> realm \<Rightarrow> root_table \<times> realm" where
  "put_message roomId messageId newMessage heap =
     (let (rooms, r) = heap; target = get_room r rooms roomId in
      case get_messages r target of
        Absent \<Rightarrow> (rooms, r)
      | Of_room m \<Rightarrow>
          (case target of
             Room_object room \<Rightarrow>
               (set_prop roomId (room\<lparr>messages := Some (set_prop messageId newMessage m)\<rparr>) rooms, r)
           | _ \<Rightarrow> (rooms, r))
      | Of_function k m \<Rightarrow>
          (rooms, r\<lparr>function_messages :=
                      set_prop k (set_prop messageId newMessage m) (function_messages r)\<rparr>)
      | Of_prototype m \<Rightarrow>
          (rooms, r\<lparr>prototype_messages := Some (set_prop messageId newMessage m)\<rparr>)
      | Message_object c \<Rightarrow> (rooms, r\<lparr>stray := stray r @ [(c, messageId, newMessage)]\<rparr>))"

text \<open>
  \<^verbatim>\<open>
  export const sendMessage = async (roomId: string, username: string, text: string): Promise<void> => {
    await new Promise(resolve => setTimeout(resolve, 100));
    const rooms = getRooms();
    if (!rooms[roomId]) return;
    const messageId = Date.now().toString(36) + Math.random().toString(36).substr(2);
    const newMessage = { id: messageId, username, text, timestamp: Date.now() };
    if (!rooms[roomId].messages) {
      rooms[roomId].messages = {};
    }
    rooms[roomId].messages[messageId] = newMessage;
    saveRooms(rooms);
  };
  \<close>
  \<open>u\<close> and \<open>t\<close> are the source's \<open>username\<close> and \<open>text\<close>; \<open>now_id\<close> and \<open>now_ts\<close> are the
  two results of \<^verbatim>\<open>Date.now()\<close>, \<open>random\<close> is \<^verbatim>\<open>Math.random().toString(36)\<close>.
\<close>

definition messageId_of :: "int \<Rightarrow> string \<Rightarrow> string" where
  "messageId_of now_id random = toString36 now_id @ drop 2 random"

definition sendMessage ::
  "string \<Rightarrow> string \<Rightarrow> string \<Rightarrow> int \<Rightarrow> string \<Rightarrow> int \<Rightarrow> world \<Rightarrow> world" where
  "sendMessage roomId u t now_id random now_ts w =
     (let (rooms, w1) = getRooms w in
      if \<not> truthy (get_room (realm w1) rooms roomId) then w1
      else
        let messageId = messageId_of now_id random;
            newMessage = \<lparr>id' = messageId, text' = t, username = u, timestamp = now_ts\<rparr>;
            heap = (rooms, realm w1);
            heap1 = (if get_messages (snd heap) (get_room (snd heap) (fst heap) roomId) = Absent
                     then init_messages roomId heap else heap);
            (rooms2, realm2) = put_message roomId messageId newMessage heap1
        in saveRooms rooms2 (w1\<lparr>realm := realm2\<rparr>))"

subsection \<open>Subscriptions\<close>

text \<open>
  What the callback receives: a list of messages, or, when \<^verbatim>\<open>room.messages\<close> is a message
  object, that object's property values in the place of messages.
\<close>

datatype delivery = Messages "ChatMessage list" | Values_of_message ChatMessage

text \<open>
  The closure of one call of \<^verbatim>\<open>subscribeToMessages\<close>: its room, the flag \<^verbatim>\<open>active\<close>,
  whether the interval timer is set and whether \<^verbatim>\<open>handleStorage\<close> is registered.
\<close>

record subscription =
  sub_roomId :: string
  active :: bool
  interval :: bool
  listener :: bool

text \<open>
  \<^verbatim>\<open>
  const checkMessages = () => {
    if (!active) return;
    const rooms = getRooms();
    const room = rooms[roomId];
    if (room && room.messages) {
      const messageList = Object.values(room.messages) as ChatMessage[];
      messageList.sort((a, b) => a.timestamp - b.timestamp);
      callback(messageList);
    } else {
      callback([]);
    }
  };
  \<close>
  \<^verbatim>\<open>Array.prototype.sort\<close> is stable, as \<open>sort_key\<close> is. The callback is modelled by the
  list of what it has received.
\<close>

definition message_list :: "realm \<Rightarrow> root_table \<Rightarrow> string \<Rightarrow> delivery" where
  "message_list r rooms roomId =
     (let room = get_room r rooms roomId in
      if truthy room then
        (case get_messages r room of
           Absent \<Rightarrow> Messages []
         | Of_room m \<Rightarrow> Messages (sort_key timestamp (Object_values m))
         | Of_function k m \<Rightarrow> Messages (sort_key timestamp (Object_values m))
         | Of_prototype m \<Rightarrow> Messages (sort_key timestamp (Object_values m))
         | Message_object c \<Rightarrow> Values_of_message c)
      else Messages [])"

definition checkMessages ::
  "subscription \<Rightarrow> world \<times> delivery list \<Rightarrow> world \<times> delivery list" where
  "checkMessages sub st =
     (let (w, received) = st in
      if \<not> active sub then (w, received)
      else
        let (rooms, w1) = getRooms w
        in (w1, received @ [message_list (realm w1) rooms (sub_roomId sub)]))"

text \<open>
  \<^verbatim>\<open>
  const handleStorage = (e: StorageEvent) => {
    if (e.key === STORAGE_KEY) {
      checkMessages();
    }
  };
  \<close>
  \<open>key\<close> is \<^verbatim>\<open>e.key\<close>, which is \<^verbatim>\<open>null\<close> when the whole area was cleared.
\<close>

definition handleStorage ::
  "string option \<Rightarrow> subscription \<Rightarrow> world \<times> delivery list \<Rightarrow> world \<times> delivery list" where
  "handleStorage key sub st = (if key = Some STORAGE_KEY then checkMessages sub st else st)"

text \<open>
  \<^verbatim>\<open>
  export const subscribeToMessages = (roomId, callback) => {
    let active = true;
    ...
    checkMessages();
    const interval = setInterval(checkMessages, 500);
    ...
    window.addEventListener('storage', handleStorage);
    return () => {
      active = false;
      clearInterval(interval);
      window.removeEventListener('storage', handleStorage);
    };
  };
  \<close>
\<close>

definition subscribeToMessages ::
  "string \<Rightarrow> world \<times> delivery list \<Rightarrow> subscription \<times> world \<times> delivery list" where
  "subscribeToMessages roomId st =
     (let sub = \<lparr>sub_roomId = roomId, active = True, interval = False, listener = False\<rparr>;
          st1 = checkMessages sub st
      in (sub\<lparr>interval := True, listener := True\<rparr>, st1))"

definition unsubscribe :: "subscription \<Rightarrow> subscription" where
  "unsubscribe sub = sub\<lparr>active := False, interval := False, listener := False\<rparr>"

subsection \<open>One tab with one subscription\<close>

text \<open>
  What can happen in a tab that holds one subscription: calls of the three operations,
  a tick of the interval timer, a \<^verbatim>\<open>storage\<close> event, a call of \<^verbatim>\<open>checkMessages\<close> that
  was already scheduled when the timer was cleared, and the call of the unsubscribe
  function. The timer and the event reach the subscription only while they are set.
\<close>

record system =
  sub :: subscription
  tab :: world
  received :: "delivery list"

datatype event =
  Create string int
  | Check string
  | Send string string string int string int
  | Tick
  | Storage_event "string option"
  | Late_check
  | Unsubscribe

definition deliver ::
  "(subscription \<Rightarrow> world \<times> delivery list \<Rightarrow> world \<times> delivery list) \<Rightarrow> system \<Rightarrow> system" where
  "deliver f s = (let (w, l) = f (sub s) (tab s, received s) in s\<lparr>tab := w, received := l\<rparr>)"

fun step :: "system \<Rightarrow> event \<Rightarrow> system" where
  "step s (Create roomId now) = s\<lparr>tab := snd (createRoom roomId now (tab s))\<rparr>"
| "step s (Check roomId) = s\<lparr>tab := snd (checkRoomExists roomId (tab s))\<rparr>"
| "step s (Send roomId u t now_id random now_ts) =
     s\<lparr>tab := sendMessage roomId u t now_id random now_ts (tab s)\<rparr>"
| "step s Tick = (if interval (sub s) then deliver checkMessages s else s)"
| "step s (Storage_event key) = (if listener (sub s) then deliver (handleStorage key) s else s)"
| "step s Late_check = deliver checkMessages s"
| "step s Unsubscribe = s\<lparr>sub := unsubscribe (sub s)\<rparr>"

definition run :: "system \<Rightarrow> event list \<Rightarrow> system" where
  "run = foldl step"

definition subscribe :: "string \<Rightarrow> world \<Rightarrow> system" where
  "subscribe roomId w =
     (let (sb, w1, l) = subscribeToMessages roomId (w, []) in \<lparr>sub = sb, tab = w1, received = l\<rparr>)"

subsection \<open>States used in the statements below\<close>

text \<open>The table as the service reads it.\<close>

definition stored :: "world \<Rightarrow> root_table" where
  "stored w = fst (getRooms w)"

text \<open>A tab that has never stored anything; the same with the quota used up.\<close>

definition fresh_world :: world where
  "fresh_world =
     \<lparr>localStorage = \<lparr>item = None, disabled = False, full = False\<rparr>,
      realm = pristine, console = [], alerts = []\<rparr>"

definition full_world :: world where
  "full_world = fresh_world\<lparr>localStorage := \<lparr>item = None, disabled = False, full = True\<rparr>\<rparr>"

text \<open>A stored text that \<^verbatim>\<open>JSON.parse\<close> rejects.\<close>

definition corrupt_world :: world where
  "corrupt_world =
     fresh_world\<lparr>localStorage := \<lparr>item = Some Malformed, disabled = False, full = False\<rparr>\<rparr>"

text \<open>One room stored, and the quota used up.\<close>

definition one_room_full_world :: world where
  "one_room_full_world =
     \<lparr>localStorage =
        \<lparr>item = Some (Encoded [(''123456'', \<lparr>createdAt = 1, messages = Some []\<rparr>)]),
         disabled = False, full = True\<rparr>,
      realm = pristine, console = [], alerts = []\<rparr>"

text \<open>A subscription after its unsubscribe function has run.\<close>

definition stopped :: "system \<Rightarrow> bool" where
  "stopped s \<longleftrightarrow> \<not> active (sub s) \<and> \<not> interval (sub s) \<and> \<not> listener (sub s)"

text \<open>What an event makes the callback receive.\<close>

definition delivered_by :: "system \<Rightarrow> event \<Rightarrow> delivery list" where
  "delivered_by s e = drop (length (received s)) (received (step s e))"

text \<open>
  The messages and states of the examples: Alice's message; a message of Bob that gets
  the identifier of Alice's, and one that gets its own; room \<open>123456\<close> as created, with
  Alice's message in it, and with Bob's message in the place of Alice's; a tab in which
  a message was sent to the room identifier \<^verbatim>\<open>constructor\<close>; and a table of two rooms.
\<close>

definition alice_message :: ChatMessage where
  "alice_message = \<lparr>id' = ''1abc'', text' = ''hi'', username = ''Alice'', timestamp = 2\<rparr>"

definition bob_message :: ChatMessage where
  "bob_message = \<lparr>id' = ''1abc'', text' = ''yo'', username = ''Bob'', timestamp = 3\<rparr>"

definition bob_later :: ChatMessage where
  "bob_later = \<lparr>id' = ''3xyz'', text' = ''yo'', username = ''Bob'', timestamp = 4\<rparr>"

definition room_world :: world where
  "room_world =
     \<lparr>localStorage =
        \<lparr>item = Some (Encoded [(''123456'', \<lparr>createdAt = 0, messages = Some []\<rparr>)]),
         disabled = False, full = False\<rparr>,
      realm = pristine, console = [], alerts = []\<rparr>"

definition alice_world :: world where
  "alice_world =
     \<lparr>localStorage =
        \<lparr>item = Some (Encoded [(''123456'',
            \<lparr>createdAt = 0, messages = Some [(''1abc'', alice_message)]\<rparr>)]),
         disabled = False, full = False\<rparr>,
      realm = pristine, console = [], alerts = []\<rparr>"

definition bob_world :: world where
  "bob_world =
     \<lparr>localStorage =
        \<lparr>item = Some (Encoded [(''123456'',
            \<lparr>createdAt = 0, messages = Some [(''1abc'', bob_message)]\<rparr>)]),
         disabled = False, full = False\<rparr>,
      realm = pristine, console = [], alerts = []\<rparr>"

definition phantom_world :: world where
  "phantom_world =
     \<lparr>localStorage = \<lparr>item = Some (Encoded []), disabled = False, full = False\<rparr>,
      realm = \<lparr>prototype_messages = None,
               function_messages = [(''constructor'', [(''1abc'', alice_message)])],
               stray = []\<rparr>,
      console = [], alerts = []\<rparr>"

definition two_room_world :: world where
  "two_room_world =
     \<lparr>localStorage =
        \<lparr>item = Some (Encoded
           [(''123456'', \<lparr>createdAt = 0, messages = Some [(''1abc'', alice_message)]\<rparr>),
            (''654321'', \<lparr>createdAt = 5, messages = Some []\<rparr>)]),
         disabled = False, full = False\<rparr>,
      realm = pristine, console = [], alerts = []\<rparr>"

text \<open>
  A sequence of calls of \<open>sendMessage\<close> to one room: each call is given by its arguments
  \<open>(u, t, now_id, random, now_ts)\<close>, and has the message identifier and the message that
  the source builds from them.
\<close>

type_synonym send = "string \<times> string \<times> int \<times> string \<times> int"




text \<open>
  The message table of a stored room, as \<^verbatim>\<open>rooms[r].messages\<close> finds it in the room
  itself; a room without a table counts as empty where \<^verbatim>\<open>Object.prototype\<close> offers none
  in its place.
\<close>

definition room_messages :: "world \<Rightarrow> string \<Rightarrow> message_table option" where
  "room_messages w r =
     (case map_of (stored w) r of
        None \<Rightarrow> None
      | Some room \<Rightarrow>
          (case get_messages (realm w) (Room_object room) of
             Of_room m \<Rightarrow> Some m
           | Absent \<Rightarrow> Some []
           | _ \<Rightarrow> None))"




text \<open>
  The tab of \<open>phantom_world\<close> after the page was loaded again: the storage area is the same,
  the built-in objects are new. And a live subscription to \<^verbatim>\<open>constructor\<close>.
\<close>

definition reloaded_world :: world where
  "reloaded_world = phantom_world\<lparr>realm := pristine\<rparr>"

definition constructor_sub :: subscription where
  "constructor_sub =
     \<lparr>sub_roomId = ''constructor'', active = True, interval = True, listener = True\<rparr>"

section \<open>Properties\<close>

subsection \<open>Assignment and lookup of own properties\<close>

lemma map_of_replace_prop:
  "map_of (replace_prop k v ps) = (if k \<in> fst ` set ps then (map_of ps)(k \<mapsto> v) else map_of ps)"
  by (induction ps) (force simp: fun_eq_iff)+

lemma map_of_insert_index: "map_of (insert_index k v ps) = (map_of ps)(k \<mapsto> v)"
  by (induction ps) (auto simp: fun_eq_iff)

lemma map_of_set_prop: "map_of (set_prop k v ps) = (map_of ps)(k \<mapsto> v)"
proof (cases "k \<in> fst ` set ps")
  case True
  then show ?thesis by (simp add: set_prop_def map_of_replace_prop)
next
  case False
  then have "map_of ps k = None" by (simp add: map_of_eq_None_iff)
  then have "map_of (ps @ [(k, v)]) = (map_of ps)(k \<mapsto> v)"
    by (auto simp: fun_eq_iff map_add_def split: option.splits)
  with False show ?thesis by (simp add: set_prop_def map_of_insert_index)
qed



lemma is_array_index_123456: "is_array_index ''123456''"
  by (simp add: is_array_index_def is_digit_def decimal_value_def digit_value_def)

subsection \<open>Reading and writing\<close>

lemma getRooms_localStorage: "localStorage (snd (getRooms w)) = localStorage w"
  by (simp add: getRooms_def Let_def split: sum.splits option.splits)

lemma getRooms_realm: "realm (snd (getRooms w)) = realm w"
  by (simp add: getRooms_def Let_def split: sum.splits option.splits)

lemma getRooms_alerts: "alerts (snd (getRooms w)) = alerts w"
  by (simp add: getRooms_def Let_def split: sum.splits option.splits)

lemma getRooms_Encoded:
  "\<not> disabled (localStorage w) \<Longrightarrow> item (localStorage w) = Some (Encoded rooms) \<Longrightarrow>
   getRooms w = (rooms, w)"
  by (simp add: getRooms_def localStorage_getItem_def JSON_parse_def)

lemma stored_cong: "localStorage w' = localStorage w \<Longrightarrow> stored w' = stored w"
  by (simp add: stored_def getRooms_def Let_def split: sum.splits option.splits)

lemma stored_fresh_world: "stored fresh_world = []"
  by (simp add: stored_def getRooms_def fresh_world_def localStorage_getItem_def)

lemma saveRooms_ok:
  "\<not> disabled (localStorage w) \<Longrightarrow> \<not> full (localStorage w) \<Longrightarrow>
   saveRooms rooms w = w\<lparr>localStorage := (localStorage w)\<lparr>item := Some (Encoded rooms)\<rparr>\<rparr>"
  by (simp add: saveRooms_def localStorage_setItem_def JSON_stringify_def)

lemma saveRooms_refused:
  "disabled (localStorage w) \<or> full (localStorage w) \<Longrightarrow>
   saveRooms rooms w =
     w\<lparr>console := console w @ [''Storage save error''],
       alerts := alerts w @ [''Local storage is full or disabled. Chat may not save.'']\<rparr>"
  by (auto simp add: saveRooms_def localStorage_setItem_def JSON_stringify_def)

lemma stored_saveRooms_ok:
  "\<not> disabled (localStorage w) \<Longrightarrow> \<not> full (localStorage w) \<Longrightarrow>
   stored (saveRooms rooms w) = rooms"
  by (simp add: saveRooms_ok stored_def getRooms_Encoded)

lemma getRooms_saveRooms_ok:
  "\<not> disabled (localStorage w) \<Longrightarrow> \<not> full (localStorage w) \<Longrightarrow>
   getRooms (saveRooms rooms w) = (rooms, saveRooms rooms w)"
  by (simp add: saveRooms_ok getRooms_Encoded)

lemma realm_saveRooms: "realm (saveRooms rooms w) = realm w"
  by (simp add: saveRooms_def split: sum.splits)

text \<open>The operations, with the table named.\<close>

lemma createRoom_unfold:
  "createRoom roomId now w =
     (if truthy (get_room (realm w) (stored w) roomId) then (False, snd (getRooms w))
      else (True, saveRooms (set_prop roomId \<lparr>createdAt = now, messages = Some []\<rparr> (stored w))
                    (snd (getRooms w))))"
  by (simp add: createRoom_def stored_def Let_def split_beta getRooms_realm)

lemma checkRoomExists_unfold:
  "checkRoomExists roomId w = (truthy (get_room (realm w) (stored w) roomId), snd (getRooms w))"
  by (simp add: checkRoomExists_def stored_def Let_def split_beta getRooms_realm)

lemma sendMessage_unfold:
  "sendMessage roomId u t now_id random now_ts w =
     (if \<not> truthy (get_room (realm w) (stored w) roomId) then snd (getRooms w)
      else
        let newMessage = \<lparr>id' = messageId_of now_id random, text' = t, username = u,
                            timestamp = now_ts\<rparr>;
            heap = (stored w, realm w);
            heap1 = (if get_messages (realm w) (get_room (realm w) (stored w) roomId) = Absent
                     then init_messages roomId heap else heap);
            heap2 = put_message roomId (messageId_of now_id random) newMessage heap1
        in saveRooms (fst heap2) (snd (getRooms w)\<lparr>realm := snd heap2\<rparr>))"
  by (simp add: sendMessage_def stored_def Let_def split_beta getRooms_realm)

lemma get_room_stored: "map_of rooms r = Some room \<Longrightarrow> get_room rl rooms r = Room_object room"
  by (simp add: get_room_def)

lemma get_room_None:
  "map_of rooms r = None \<Longrightarrow> get_room rl rooms r \<noteq> Room_object room"
  by (simp add: get_room_def split: option.splits)

lemma stored_saveRooms:
  "stored (saveRooms rooms w)
     = (if disabled (localStorage w) \<or> full (localStorage w) then stored w else rooms)"
proof (cases "disabled (localStorage w) \<or> full (localStorage w)")
  case True
  then have "localStorage (saveRooms rooms w) = localStorage w"
    by (simp add: saveRooms_refused)
  then have "stored (saveRooms rooms w) = stored w"
    by (rule stored_cong)
  then show ?thesis using True by simp
next
  case False
  then show ?thesis by (simp add: stored_saveRooms_ok)
qed

text \<open>
  Behind the guard of \<open>sendMessage\<close>, and after the table was created where it was
  missing, \<^verbatim>\<open>rooms[roomId].messages\<close> is an object: the assignment of the new message
  never meets \<^verbatim>\<open>undefined\<close>, and the branch \<open>Absent\<close> of \<open>put_message\<close> is not taken.
\<close>

lemma messages_defined:
  assumes "truthy (get_room rl rooms r)"
  shows "get_messages
           (snd (if get_messages rl (get_room rl rooms r) = Absent
                 then init_messages r (rooms, rl) else (rooms, rl)))
           (get_room
             (snd (if get_messages rl (get_room rl rooms r) = Absent
                   then init_messages r (rooms, rl) else (rooms, rl)))
             (fst (if get_messages rl (get_room rl rooms r) = Absent
                   then init_messages r (rooms, rl) else (rooms, rl))) r)
         \<noteq> Absent"
proof (cases "get_messages rl (get_room rl rooms r) = Absent")
  case False
  then show ?thesis by simp
next
  case True
  show ?thesis
  proof (cases "get_room rl rooms r")
    case Undefined
    with assms show ?thesis by (simp add: truthy_def)
  next
    case (Room_object room)
    then have "map_of rooms r = Some room"
      by (simp add: get_room_def split: option.splits if_splits)
    then show ?thesis
      using True Room_object
      by (simp add: init_messages_def get_room_def map_of_set_prop get_messages_def)
  next
    case Object_prototype
    then have "map_of rooms r = None" "r = ''__proto__''"
      by (simp_all add: get_room_def split: option.splits if_splits)
    then show ?thesis
      using True Object_prototype
      by (simp add: init_messages_def get_room_def get_messages_def inherited_messages_def)
  next
    case (Function_member k)
    then have "map_of rooms r = None" "r \<noteq> ''__proto__''" "r \<in> set function_members" "k = r"
      by (simp_all add: get_room_def split: option.splits if_splits)
    then show ?thesis
      using True Function_member
      by (simp add: init_messages_def get_room_def get_messages_def map_of_set_prop)
  next
    case (Prototype_messages mp)
    then have "prototype_messages rl = Some mp"
      by (simp add: get_room_def split: option.splits if_splits)
    then show ?thesis
      using True Prototype_messages
      by (simp add: get_messages_def inherited_messages_def split: option.splits)
  qed
qed

subsection \<open>Message identifiers\<close>

lemma digits36_not_empty: "digits36 n \<noteq> []"
  by (subst digits36.simps) simp

lemma digit36_alphabet:
  "d < 36 \<Longrightarrow> digit36 d \<in> set ''0123456789abcdefghijklmnopqrstuvwxyz''"
  unfolding digit36_def by (rule nth_mem) simp

lemma digits36_alphabet: "set (digits36 n) \<subseteq> set ''0123456789abcdefghijklmnopqrstuvwxyz''"
proof (induction n rule: digits36.induct)
  case (1 n)
  show ?case
  proof (cases "n < 36")
    case True
    then show ?thesis
      using digit36_alphabet [of n] by (subst digits36.simps) simp
  next
    case False
    then have "set (digits36 (n div 36)) \<subseteq> set ''0123456789abcdefghijklmnopqrstuvwxyz''"
      by (rule "1.IH")
    moreover have "digit36 (n mod 36) \<in> set ''0123456789abcdefghijklmnopqrstuvwxyz''"
      by (rule digit36_alphabet) simp
    ultimately show ?thesis
      using False by (subst digits36.simps) simp
  qed
qed

text \<open>
  A message identifier begins with a digit, a lower-case letter or a minus sign, so it
  is never \<^verbatim>\<open>__proto__\<close>, and assigning to it creates or replaces an own property.
\<close>

lemma messageId_not_proto: "messageId_of now_id random \<noteq> ''__proto__''"
proof -
  have "hd (digits36 n) \<in> set (digits36 n)" for n
    by (simp add: digits36_not_empty)
  then have alphabet: "hd (digits36 n) \<in> set ''0123456789abcdefghijklmnopqrstuvwxyz''" for n
    using digits36_alphabet by blast
  have "hd (digits36 n) \<noteq> CHR ''_''" for n
  proof
    assume "hd (digits36 n) = CHR ''_''"
    with alphabet [of n] show False by simp
  qed
  then have "hd (toString36 now_id) \<noteq> CHR ''_''"
    by (simp add: toString36_def)
  moreover have "toString36 now_id \<noteq> []"
    by (simp add: toString36_def digits36_not_empty)
  ultimately have "hd (messageId_of now_id random) \<noteq> CHR ''_''"
    by (simp add: messageId_of_def)
  then show ?thesis by auto
qed

lemma messageId_1abc: "messageId_of 1 ''0.abc'' = ''1abc''"
  by (simp add: messageId_of_def toString36_def digits36.simps digit36_def)

lemma messageId_3xyz: "messageId_of 3 ''0.xyz'' = ''3xyz''"
  by (simp add: messageId_of_def toString36_def digits36.simps digit36_def)

lemma not_index_constructor: "\<not> is_array_index ''constructor''"
  by (simp add: is_array_index_def is_digit_def)

lemma not_index_1abc: "\<not> is_array_index ''1abc''"
  by (simp add: is_array_index_def is_digit_def)

subsection \<open>The example states\<close>

lemma getRooms_fresh_world: "getRooms fresh_world = ([], fresh_world)"
  by (simp add: fresh_world_def getRooms_def localStorage_getItem_def)

lemma getRooms_room_world:
  "getRooms room_world = ([(''123456'', \<lparr>createdAt = 0, messages = Some []\<rparr>)], room_world)"
  by (simp add: room_world_def getRooms_def localStorage_getItem_def JSON_parse_def)

lemma stored_room_world:
  "stored room_world = [(''123456'', \<lparr>createdAt = 0, messages = Some []\<rparr>)]"
  by (simp add: stored_def room_world_def getRooms_def localStorage_getItem_def JSON_parse_def)

lemma getRooms_alice_world:
  "getRooms alice_world
     = ([(''123456'', \<lparr>createdAt = 0, messages = Some [(''1abc'', alice_message)]\<rparr>)],
        alice_world)"
  by (simp add: alice_world_def getRooms_def localStorage_getItem_def JSON_parse_def)

lemma stored_alice_world:
  "stored alice_world
     = [(''123456'', \<lparr>createdAt = 0, messages = Some [(''1abc'', alice_message)]\<rparr>)]"
  by (simp add: stored_def getRooms_alice_world)

lemma getRooms_bob_world:
  "getRooms bob_world
     = ([(''123456'', \<lparr>createdAt = 0, messages = Some [(''1abc'', bob_message)]\<rparr>)],
        bob_world)"
  by (simp add: bob_world_def getRooms_def localStorage_getItem_def JSON_parse_def)

lemma stored_bob_world:
  "stored bob_world
     = [(''123456'', \<lparr>createdAt = 0, messages = Some [(''1abc'', bob_message)]\<rparr>)]"
  by (simp add: stored_def getRooms_bob_world)

lemma stored_two_room_world:
  "stored two_room_world
     = [(''123456'', \<lparr>createdAt = 0, messages = Some [(''1abc'', alice_message)]\<rparr>),
        (''654321'', \<lparr>createdAt = 5, messages = Some []\<rparr>)]"
  by (simp add: stored_def two_room_world_def getRooms_def localStorage_getItem_def
      JSON_parse_def)

lemma stored_phantom_world: "stored phantom_world = []"
  by (simp add: stored_def phantom_world_def getRooms_def localStorage_getItem_def JSON_parse_def)

text \<open>They arise as the specification's scenario says.\<close>

lemma createRoom_fresh: "createRoom ''123456'' 0 fresh_world = (True, room_world)"
  by (simp add: createRoom_unfold stored_fresh_world get_room_def function_members_def truthy_def
      set_prop_def is_array_index_123456)
    (simp add: fresh_world_def room_world_def getRooms_def localStorage_getItem_def saveRooms_def
      localStorage_setItem_def JSON_stringify_def)

lemma send_alice: "sendMessage ''123456'' ''Alice'' ''hi'' 1 ''0.abc'' 2 room_world = alice_world"
  by (simp add: sendMessage_unfold stored_room_world get_room_def truthy_def get_messages_def
      put_message_def messageId_1abc set_prop_def not_index_1abc getRooms_room_world Let_def)
    (simp add: room_world_def alice_world_def alice_message_def saveRooms_def
      localStorage_setItem_def JSON_stringify_def)

lemma send_bob: "sendMessage ''123456'' ''Bob'' ''yo'' 1 ''0.abc'' 3 alice_world = bob_world"
  by (simp add: sendMessage_unfold stored_alice_world get_room_def truthy_def get_messages_def
      put_message_def messageId_1abc set_prop_def getRooms_alice_world Let_def)
    (simp add: alice_world_def bob_world_def bob_message_def saveRooms_def
      localStorage_setItem_def JSON_stringify_def)

lemma send_phantom:
  "sendMessage ''constructor'' ''Alice'' ''hi'' 1 ''0.abc'' 2 fresh_world = phantom_world"
proof -
  let ?r1 = "pristine\<lparr>function_messages := [(''constructor'', [])]\<rparr>"
  have rl: "realm fresh_world = pristine"
    by (simp add: fresh_world_def)
  have target: "get_room rl [] ''constructor'' = Function_member ''constructor''" for rl
    by (simp add: get_room_def function_members_def)
  have none: "get_messages pristine (Function_member ''constructor'') = Absent"
    by (simp add: get_messages_def inherited_messages_def pristine_def)
  have init: "init_messages ''constructor'' ([], pristine) = ([], ?r1)"
    by (simp add: init_messages_def target set_prop_def not_index_constructor pristine_def)
  have some: "get_messages ?r1 (Function_member ''constructor'') = Of_function ''constructor'' []"
    by (simp add: get_messages_def pristine_def)
  have put: "put_message ''constructor'' ''1abc'' alice_message ([], ?r1)
      = ([], realm phantom_world)"
    by (simp add: put_message_def target some)
      (simp add: set_prop_def not_index_1abc phantom_world_def pristine_def)
  have save: "saveRooms [] (fresh_world\<lparr>realm := realm phantom_world\<rparr>) = phantom_world"
    by (simp add: saveRooms_def localStorage_setItem_def JSON_stringify_def fresh_world_def
        phantom_world_def)
  show ?thesis
    by (simp add: sendMessage_unfold stored_fresh_world getRooms_fresh_world rl target none
        truthy_def messageId_1abc init Let_def alice_message_def [symmetric] put save)
qed

subsection \<open>Creating a room twice\<close>

text \<open>
  C1. Where the storage area can be read and written and \<^verbatim>\<open>rooms[r]\<close> finds nothing (no
  room is stored under \<open>r\<close>, and \<open>r\<close> is not a name that every object inherits), the first
  \<open>createRoom r\<close> returns true and stores the table with the new room
  \<open>\<lparr>createdAt = now1, messages = Some []\<rparr>\<close> added; the second returns false and leaves
  the whole state, the stored table with it, as the first call left it.
\<close>

theorem createRoom_twice:
  assumes "\<not> disabled (localStorage w)" and "\<not> full (localStorage w)"
    and "get_room (realm w) (stored w) r = Undefined"
  shows "fst (createRoom r now1 w) = True
    \<and> stored (snd (createRoom r now1 w))
        = set_prop r \<lparr>createdAt = now1, messages = Some []\<rparr> (stored w)
    \<and> map_of (stored (snd (createRoom r now1 w))) r
        = Some \<lparr>createdAt = now1, messages = Some []\<rparr>
    \<and> createRoom r now2 (snd (createRoom r now1 w)) = (False, snd (createRoom r now1 w))"
proof -
  let ?room = "\<lparr>createdAt = now1, messages = Some []\<rparr>"
  let ?rooms = "set_prop r ?room (stored w)"
  let ?w1 = "snd (getRooms w)"
  have ok: "\<not> disabled (localStorage ?w1)" "\<not> full (localStorage ?w1)"
    using assms(1,2) by (simp_all add: getRooms_localStorage)
  have first: "createRoom r now1 w = (True, saveRooms ?rooms ?w1)"
    using assms(3) by (simp add: createRoom_unfold truthy_def)
  have read: "getRooms (saveRooms ?rooms ?w1) = (?rooms, saveRooms ?rooms ?w1)"
    using ok by (rule getRooms_saveRooms_ok)
  have st: "stored (saveRooms ?rooms ?w1) = ?rooms"
    using ok by (rule stored_saveRooms_ok)
  have found: "map_of ?rooms r = Some ?room"
    by (simp add: map_of_set_prop)
  then have "get_room (realm (saveRooms ?rooms ?w1)) ?rooms r = Room_object ?room"
    by (simp add: get_room_def)
  then have second: "createRoom r now2 (saveRooms ?rooms ?w1) = (False, saveRooms ?rooms ?w1)"
    by (simp add: createRoom_unfold st read truthy_def)
  show ?thesis
    by (simp add: first st found second)
qed

theorem createRoom_twice_witness:
  "fst (createRoom ''123456'' 1 fresh_world) = True
    \<and> stored (snd (createRoom ''123456'' 1 fresh_world))
        = [(''123456'', \<lparr>createdAt = 1, messages = Some []\<rparr>)]
    \<and> createRoom ''123456'' 2 (snd (createRoom ''123456'' 1 fresh_world))
        = (False, snd (createRoom ''123456'' 1 fresh_world))"
proof -
  have "get_room (realm fresh_world) (stored fresh_world) ''123456'' = Undefined"
    by (simp add: stored_fresh_world get_room_def function_members_def)
  from createRoom_twice [OF _ _ this, of 1 2] show ?thesis
    by (simp add: stored_fresh_world set_prop_def is_array_index_123456)
      (simp add: fresh_world_def)
qed

text \<open>
  With the quota used up the write is refused: both calls return true and the table
  still holds no room.
\<close>

theorem createRoom_twice_counterexample:
  "fst (createRoom ''123456'' 1 full_world) = True
   \<and> fst (createRoom ''123456'' 2 (snd (createRoom ''123456'' 1 full_world))) = True
   \<and> stored (snd (createRoom ''123456'' 1 full_world)) = []"
  by (simp add: createRoom_unfold full_world_def fresh_world_def stored_def getRooms_def
      localStorage_getItem_def saveRooms_def localStorage_setItem_def get_room_def truthy_def
      function_members_def)


subsection \<open>Rooms that are not stored\<close>

text \<open>
  Where \<^verbatim>\<open>rooms[r]\<close> finds nothing, \<open>checkRoomExists\<close> returns false and \<open>sendMessage\<close>
  does no more than read the table.
\<close>

lemma absent_room:
  assumes "get_room (realm w) (stored w) r = Undefined"
  shows "checkRoomExists r w = (False, snd (getRooms w))"
    and "sendMessage r u t now_id random now_ts w = snd (getRooms w)"
  using assms by (simp_all add: checkRoomExists_unfold sendMessage_unfold truthy_def)

text \<open>
  C3. The table of a tab that has never stored anything has no entry \<^verbatim>\<open>constructor\<close>, and
  \<open>checkRoomExists\<close> returns true for it: \<^verbatim>\<open>rooms["constructor"]\<close> is the function
  \<^verbatim>\<open>Object\<close>, which every object inherits, and \<^verbatim>\<open>!!\<close> of a function is true.
\<close>

theorem checkRoomExists_constructor:
  "map_of (stored fresh_world) ''constructor'' = None
   \<and> fst (checkRoomExists ''constructor'' fresh_world) = True"
  by (simp add: checkRoomExists_unfold stored_fresh_world get_room_def function_members_def
      truthy_def)

subsection \<open>A stored text that cannot be read\<close>

text \<open>
  When access to the storage area is refused or the stored text does not parse,
  \<open>getRooms\<close> returns the empty table and writes to the console.
\<close>

lemma getRooms_read_failure:
  assumes "disabled (localStorage w) \<or> item (localStorage w) = Some Malformed"
  shows "getRooms w = ([], w\<lparr>console := console w @ [''Storage read error'']\<rparr>)"
  using assms by (auto simp: getRooms_def localStorage_getItem_def JSON_parse_def)

text \<open>
  For a room identifier that \<^verbatim>\<open>rooms[r]\<close> does not find in the empty table, a tick of
  a live subscription then delivers the empty list.
\<close>

lemma tick_read_failure:
  assumes "disabled (localStorage (tab s)) \<or> item (localStorage (tab s)) = Some Malformed"
    and "get_room (realm (tab s)) [] (sub_roomId (sub s)) = Undefined"
    and "active (sub s)" and "interval (sub s)"
  shows "received (step s Tick) = received s @ [Messages []]"
proof -
  have "stored (tab s) = []"
    using getRooms_read_failure [OF assms(1)] by (simp add: stored_def)
  then show ?thesis
    using assms(2-4)
    by (simp add: deliver_def checkMessages_def Let_def split_beta stored_def getRooms_realm
        message_list_def truthy_def)
qed

text \<open>
  C6. With a stored text that \<^verbatim>\<open>JSON.parse\<close> rejects the table is read as empty, and
  \<open>checkRoomExists\<close> still returns true for the inherited name \<^verbatim>\<open>toString\<close>.
\<close>

theorem checkRoomExists_corrupt_toString:
  "stored corrupt_world = []
   \<and> fst (checkRoomExists ''toString'' corrupt_world) = True"
  by (simp add: checkRoomExists_unfold get_room_def function_members_def truthy_def
      stored_def getRooms_def corrupt_world_def fresh_world_def localStorage_getItem_def
      JSON_parse_def)

subsection \<open>A write that is refused\<close>

lemma stored_one_room_full_world:
  "stored one_room_full_world = [(''123456'', \<lparr>createdAt = 1, messages = Some []\<rparr>)]"
  by (simp add: stored_def one_room_full_world_def getRooms_def localStorage_getItem_def
      JSON_parse_def)

text \<open>
  C7. When \<^verbatim>\<open>setItem\<close> throws (storage disabled, or quota used up), \<open>createRoom\<close> and
  \<open>sendMessage\<close> leave the storage area as it was; \<open>createRoom\<close> returns what it returns
  otherwise, true exactly when it did not find the room; and each operation that reached
  the write has shown the alert.
\<close>

theorem write_refused:
  assumes "disabled (localStorage w) \<or> full (localStorage w)"
  shows "localStorage (snd (createRoom r now w)) = localStorage w
    \<and> fst (createRoom r now w) = (\<not> fst (checkRoomExists r w))
    \<and> (fst (createRoom r now w) \<longrightarrow>
         alerts (snd (createRoom r now w))
           = alerts w @ [''Local storage is full or disabled. Chat may not save.''])
    \<and> localStorage (sendMessage r' u t now_id random now_ts w) = localStorage w
    \<and> (fst (checkRoomExists r' w) \<longrightarrow>
         alerts (sendMessage r' u t now_id random now_ts w)
           = alerts w @ [''Local storage is full or disabled. Chat may not save.''])"
proof -
  let ?w1 = "snd (getRooms w)"
  have refused: "disabled (localStorage ?w1) \<or> full (localStorage ?w1)"
    using assms by (simp add: getRooms_localStorage)
  then have refused':
    "disabled (localStorage (?w1\<lparr>realm := x\<rparr>)) \<or> full (localStorage (?w1\<lparr>realm := x\<rparr>))" for x
    by simp
  have c1: "localStorage (snd (createRoom r now w)) = localStorage w"
    using refused by (simp add: createRoom_unfold saveRooms_refused getRooms_localStorage)
  have c2: "fst (createRoom r now w) = (\<not> fst (checkRoomExists r w))"
    by (simp add: createRoom_unfold checkRoomExists_unfold)
  have c3: "fst (createRoom r now w) \<longrightarrow>
         alerts (snd (createRoom r now w))
           = alerts w @ [''Local storage is full or disabled. Chat may not save.'']"
    using refused by (simp add: createRoom_unfold saveRooms_refused getRooms_alerts)
  have s1: "localStorage (sendMessage r' u t now_id random now_ts w) = localStorage w"
    using refused'
    by (simp add: sendMessage_unfold Let_def saveRooms_refused getRooms_localStorage)
  have s2: "fst (checkRoomExists r' w) \<longrightarrow>
         alerts (sendMessage r' u t now_id random now_ts w)
           = alerts w @ [''Local storage is full or disabled. Chat may not save.'']"
    using refused'
    by (simp add: sendMessage_unfold checkRoomExists_unfold Let_def saveRooms_refused
        getRooms_alerts)
  from c1 c2 c3 s1 s2 show ?thesis by blast
qed

theorem write_refused_witness:
  "localStorage (snd (createRoom ''654321'' 7 one_room_full_world))
     = localStorage one_room_full_world
   \<and> fst (createRoom ''654321'' 7 one_room_full_world) = True
   \<and> alerts (snd (createRoom ''654321'' 7 one_room_full_world))
       = [''Local storage is full or disabled. Chat may not save.'']
   \<and> localStorage (sendMessage ''123456'' ''Alice'' ''hi'' 1 ''0.abc'' 2 one_room_full_world)
       = localStorage one_room_full_world
   \<and> alerts (sendMessage ''123456'' ''Alice'' ''hi'' 1 ''0.abc'' 2 one_room_full_world)
       = [''Local storage is full or disabled. Chat may not save.'']"
proof -
  have full: "disabled (localStorage one_room_full_world) \<or> full (localStorage one_room_full_world)"
    by (simp add: one_room_full_world_def)
  have new: "fst (checkRoomExists ''654321'' one_room_full_world) = False"
    by (simp add: checkRoomExists_unfold stored_one_room_full_world get_room_def
        function_members_def truthy_def)
  have old: "fst (checkRoomExists ''123456'' one_room_full_world) = True"
    by (simp add: checkRoomExists_unfold stored_one_room_full_world get_room_def truthy_def)
  have a: "alerts one_room_full_world = []"
    by (simp add: one_room_full_world_def)
  from write_refused [OF full, of "''654321''" 7 "''123456''" "''Alice''" "''hi''" 1 "''0.abc''" 2]
  show ?thesis
    by (simp add: new old a)
qed

subsection \<open>Deliveries\<close>

lemma checkMessages_unfold:
  "checkMessages sb (w, l) =
     (if active sb then (snd (getRooms w), l @ [message_list (realm w) (stored w) (sub_roomId sb)])
      else (w, l))"
  by (simp add: checkMessages_def stored_def Let_def split_beta getRooms_realm)

lemma deliver_checkMessages:
  "deliver checkMessages s =
     (if active (sub s)
      then s\<lparr>tab := snd (getRooms (tab s)),
             received := received s @
               [message_list (realm (tab s)) (stored (tab s)) (sub_roomId (sub s))]\<rparr>
      else s)"
  by (simp add: deliver_def checkMessages_unfold)

lemma deliver_handleStorage:
  "deliver (handleStorage key) s = (if key = Some STORAGE_KEY then deliver checkMessages s else s)"
  by (simp add: deliver_def handleStorage_def)

lemma step_Tick:
  "step s Tick =
     (if interval (sub s) \<and> active (sub s)
      then s\<lparr>tab := snd (getRooms (tab s)),
             received := received s @
               [message_list (realm (tab s)) (stored (tab s)) (sub_roomId (sub s))]\<rparr>
      else s)"
  by (simp add: deliver_checkMessages)

lemma stored_getRooms: "stored (snd (getRooms w)) = stored w"
  by (rule stored_cong) (rule getRooms_localStorage)

lemma run_snoc: "run s (es @ [e]) = step (run s es) e"
  by (simp add: run_def)

lemma subscribe_unfold:
  "subscribe roomId w =
     \<lparr>sub = \<lparr>sub_roomId = roomId, active = True, interval = True, listener = True\<rparr>,
      tab = snd (getRooms w),
      received = [message_list (realm w) (stored w) roomId]\<rparr>"
  by (simp add: subscribe_def subscribeToMessages_def checkMessages_unfold Let_def)


lemma message_list_room_world:
  "message_list (realm room_world) (stored room_world) ''123456'' = Messages []"
  by (simp add: message_list_def stored_room_world get_room_def truthy_def get_messages_def
      Object_values_def)

lemma message_list_alice_world:
  "message_list (realm alice_world) (stored alice_world) ''123456'' = Messages [alice_message]"
  by (simp add: message_list_def stored_alice_world get_room_def truthy_def get_messages_def
      Object_values_def)


lemma subscribe_room_world:
  "subscribe ''123456'' room_world =
     \<lparr>sub = \<lparr>sub_roomId = ''123456'', active = True, interval = True, listener = True\<rparr>,
      tab = room_world, received = [Messages []]\<rparr>"
  by (simp add: subscribe_unfold getRooms_room_world message_list_room_world)

lemma subscribe_alice_world:
  "subscribe ''123456'' alice_world =
     \<lparr>sub = \<lparr>sub_roomId = ''123456'', active = True, interval = True, listener = True\<rparr>,
      tab = alice_world, received = [Messages [alice_message]]\<rparr>"
  by (simp add: subscribe_unfold getRooms_alice_world message_list_alice_world)

subsection \<open>The first delivery\<close>

text \<open>
  \<open>subscribe\<close> makes the callback receive one list before it returns, and that list is
  empty where \<^verbatim>\<open>rooms[r]\<close> finds nothing and where the stored room has no messages.
\<close>

lemma subscribe_absent_room:
  assumes "get_room (realm w) (stored w) r = Undefined"
  shows "received (subscribe r w) = [Messages []]"
  using assms by (simp add: subscribe_unfold message_list_def truthy_def)

lemma room_messages_cases:
  assumes "room_messages w r = Some m"
  obtains room where "map_of (stored w) r = Some room" "messages room = Some m"
  | room where "map_of (stored w) r = Some room" "messages room = None"
      "prototype_messages (realm w) = None" "m = []"
  using assms
  by (auto simp: room_messages_def get_messages_def inherited_messages_def
      split: option.splits messages_ref.splits)

lemma room_messages_stored:
  assumes "map_of (stored w) r = Some room" and "messages room = Some m"
  shows "room_messages w r = Some m"
  using assms by (simp add: room_messages_def get_messages_def)

lemma message_list_room_messages:
  assumes "room_messages w r = Some m"
  shows "message_list (realm w) (stored w) r = Messages (sort_key timestamp (Object_values m))"
  using assms
proof (cases rule: room_messages_cases)
  case (1 room)
  then show ?thesis
    by (simp add: message_list_def get_room_stored truthy_def get_messages_def)
next
  case (2 room)
  then show ?thesis
    by (simp add: message_list_def get_room_stored truthy_def get_messages_def
        inherited_messages_def Object_values_def)
qed

lemma subscribe_empty_room:
  assumes "room_messages w r = Some []"
  shows "received (subscribe r w) = [Messages []]"
  using message_list_room_messages [OF assms]
  by (simp add: subscribe_unfold Object_values_def)

text \<open>
  C5. After a message was sent to the room identifier \<^verbatim>\<open>constructor\<close>, which
  \<open>sendMessage\<close> takes for a room because every object inherits a property of that name,
  the stored table still has no room, and a subscription to \<^verbatim>\<open>constructor\<close> makes the
  callback receive that message at once: the message is kept on the function \<^verbatim>\<open>Object\<close>.
\<close>

theorem subscribe_constructor:
  "stored (sendMessage ''constructor'' ''Alice'' ''hi'' 1 ''0.abc'' 2 fresh_world) = []
   \<and> received (subscribe ''constructor''
        (sendMessage ''constructor'' ''Alice'' ''hi'' 1 ''0.abc'' 2 fresh_world))
      = [Messages [\<lparr>id' = ''1abc'', text' = ''hi'', username = ''Alice'', timestamp = 2\<rparr>]]"
proof -
  have target: "get_room rl [] ''constructor'' = Function_member ''constructor''" for rl
    by (simp add: get_room_def function_members_def)
  have "get_messages (realm phantom_world) (Function_member ''constructor'')
      = Of_function ''constructor'' [(''1abc'', alice_message)]"
    by (simp add: get_messages_def phantom_world_def)
  then have "message_list (realm phantom_world) [] ''constructor'' = Messages [alice_message]"
    by (simp add: message_list_def target truthy_def Object_values_def)
  then show ?thesis
    by (simp add: send_phantom stored_phantom_world subscribe_unfold alice_message_def)
qed

subsection \<open>After unsubscribing\<close>

lemma step_stopped:
  assumes "stopped s"
  shows "stopped (step s e) \<and> received (step s e) = received s"
  using assms
  by (cases e)
    (simp_all add: stopped_def deliver_checkMessages deliver_handleStorage unsubscribe_def)

lemma run_stopped:
  "stopped s \<Longrightarrow> stopped (run s es) \<and> received (run s es) = received s"
proof (induction es rule: rev_induct)
  case Nil
  then show ?case by (simp add: run_def)
next
  case (snoc e es)
  then show ?case using step_stopped [of "run s es" e] by (simp add: run_snoc)
qed

text \<open>
  C4. Once the unsubscribe function has run, whatever happens next (sends, timer ticks,
  storage events for any key, calls of \<open>checkMessages\<close> that were already scheduled) the
  callback receives nothing more; the flag is off, the timer cleared and the listener
  removed, and they stay so.
\<close>

theorem no_delivery_after_unsubscribe:
  "received (run (step s Unsubscribe) es) = received s
   \<and> active (sub (run (step s Unsubscribe) es)) = False
   \<and> interval (sub (run (step s Unsubscribe) es)) = False
   \<and> listener (sub (run (step s Unsubscribe) es)) = False"
proof -
  have "stopped (step s Unsubscribe)"
    by (simp add: stopped_def unsubscribe_def)
  from run_stopped [OF this, of es] show ?thesis
    by (simp add: stopped_def)
qed

subsection \<open>Two ticks in a row\<close>

text \<open>
  A second tick right after a tick makes the callback receive what the first one made it
  receive; on a live subscription that is the one list that \<open>message_list\<close> computes from
  the stored table and the built-in objects.
\<close>

theorem tick_twice:
  "delivered_by (step s Tick) Tick = delivered_by s Tick
   \<and> (active (sub s) \<and> interval (sub s) \<longrightarrow>
        delivered_by s Tick
          = [message_list (realm (tab s)) (stored (tab s)) (sub_roomId (sub s))])"
  by (simp add: delivered_by_def step_Tick getRooms_realm stored_getRooms del: step.simps)

theorem tick_twice_witness:
  "delivered_by (step (subscribe ''123456'' alice_world) Tick) Tick = [Messages [alice_message]]
   \<and> delivered_by (subscribe ''123456'' alice_world) Tick = [Messages [alice_message]]"
  using tick_twice [of "subscribe ''123456'' alice_world"]
  by (simp add: subscribe_alice_world message_list_alice_world del: step.simps)

text \<open>
  For a room that is stored with a message table of its own the list is computed from the
  stored table alone.
\<close>

lemma message_list_own_table:
  assumes "map_of rooms r = Some room" and "messages room = Some m"
  shows "message_list rl rooms r = Messages (sort_key timestamp (Object_values m))"
  using assms by (simp add: message_list_def get_room_def truthy_def get_messages_def)

lemma message_list_phantom_world:
  "message_list (realm phantom_world) (stored phantom_world) ''constructor''
     = Messages [alice_message]"
proof -
  have "get_messages (realm phantom_world) (Function_member ''constructor'')
      = Of_function ''constructor'' [(''1abc'', alice_message)]"
    by (simp add: get_messages_def phantom_world_def)
  then show ?thesis
    by (simp add: stored_phantom_world message_list_def get_room_def function_members_def
        truthy_def Object_values_def)
qed

lemma stored_reloaded_world: "stored reloaded_world = []"
  by (simp add: stored_def reloaded_world_def phantom_world_def getRooms_def
      localStorage_getItem_def JSON_parse_def)

lemma message_list_reloaded_world:
  "message_list (realm reloaded_world) (stored reloaded_world) ''constructor'' = Messages []"
proof -
  have "get_messages (realm reloaded_world) (Function_member ''constructor'') = Absent"
    by (simp add: get_messages_def inherited_messages_def reloaded_world_def pristine_def)
  then show ?thesis
    by (simp add: stored_reloaded_world message_list_def get_room_def function_members_def
        truthy_def)
qed

text \<open>
  C8. The list a tick delivers is not a function of the stored table. After a message
  was sent to the room identifier \<^verbatim>\<open>constructor\<close>, a tick of a subscription to it delivers
  that message; once the page is loaded again the storage area and the table in it are
  the same, and the tick delivers the empty list.
\<close>

theorem tick_same_table:
  "localStorage reloaded_world = localStorage phantom_world
   \<and> stored reloaded_world = stored phantom_world
   \<and> delivered_by \<lparr>sub = constructor_sub, tab = phantom_world, received = []\<rparr> Tick
       = [Messages [alice_message]]
   \<and> delivered_by \<lparr>sub = constructor_sub, tab = reloaded_world, received = []\<rparr> Tick
       = [Messages []]"
proof -
  have "localStorage reloaded_world = localStorage phantom_world"
    by (simp add: reloaded_world_def)
  moreover have "stored reloaded_world = stored phantom_world"
    by (simp add: stored_phantom_world stored_reloaded_world)
  moreover have
    "delivered_by \<lparr>sub = constructor_sub, tab = phantom_world, received = []\<rparr> Tick
       = [Messages [alice_message]]"
    by (simp add: delivered_by_def deliver_checkMessages constructor_sub_def
        message_list_phantom_world)
  moreover have
    "delivered_by \<lparr>sub = constructor_sub, tab = reloaded_world, received = []\<rparr> Tick
       = [Messages []]"
    by (simp add: delivered_by_def deliver_checkMessages constructor_sub_def
        message_list_reloaded_world)
  ultimately show ?thesis by simp
qed

subsection \<open>Storage events\<close>

text \<open>
  C9. A storage event adds a delivery exactly when its key is \<open>STORAGE_KEY\<close> (and the
  subscription is live, as it is from \<open>subscribe\<close> until the unsubscribe function runs);
  an event for any other key, or without a key, delivers nothing.
\<close>

theorem storage_event_filter:
  "received (step s (Storage_event key))
     = received s @
       (if listener (sub s) \<and> active (sub s) \<and> key = Some STORAGE_KEY
        then [message_list (realm (tab s)) (stored (tab s)) (sub_roomId (sub s))] else [])
   \<and> received (step (subscribe r w) (Storage_event key))
     = received (subscribe r w) @
       (if key = Some ''firechat_rooms'' then [message_list (realm w) (stored w) r] else [])"
  by (simp add: deliver_handleStorage deliver_checkMessages subscribe_unfold STORAGE_KEY_def
      getRooms_realm stored_getRooms)

subsection \<open>Sends and what a subscription receives\<close>


lemma send_room_messages:
  assumes ok: "\<not> disabled (localStorage w)" "\<not> full (localStorage w)"
    and rm: "room_messages w r = Some m"
  shows "room_messages (sendMessage r u t now_id random now_ts w) r
           = Some (set_prop (messageId_of now_id random)
                    \<lparr>id' = messageId_of now_id random, text' = t, username = u,
                     timestamp = now_ts\<rparr> m)
       \<and> \<not> disabled (localStorage (sendMessage r u t now_id random now_ts w))
       \<and> \<not> full (localStorage (sendMessage r u t now_id random now_ts w))"
proof -
  let ?id = "messageId_of now_id random"
  let ?msg = "\<lparr>id' = ?id, text' = t, username = u, timestamp = now_ts\<rparr>"
  let ?w1 = "snd (getRooms w)"
  have ok1: "\<not> disabled (localStorage (?w1\<lparr>realm := x\<rparr>))"
       "\<not> full (localStorage (?w1\<lparr>realm := x\<rparr>))" for x
    using ok by (simp_all add: getRooms_localStorage)
  from rm show ?thesis
  proof (cases rule: room_messages_cases)
    case (1 room)
    let ?room' = "room\<lparr>messages := Some (set_prop ?id ?msg m)\<rparr>"
    let ?rooms' = "set_prop r ?room' (stored w)"
    have target: "get_room (realm w) (stored w) r = Room_object room"
      using 1(1) by (rule get_room_stored)
    have own: "get_messages (realm w) (Room_object room) = Of_room m"
      using 1(2) by (simp add: get_messages_def)
    have "sendMessage r u t now_id random now_ts w = saveRooms ?rooms' (?w1\<lparr>realm := realm w\<rparr>)"
      by (simp add: sendMessage_unfold target own truthy_def put_message_def Let_def)
    moreover have "stored (saveRooms ?rooms' (?w1\<lparr>realm := realm w\<rparr>)) = ?rooms'"
      using ok1 by (rule stored_saveRooms_ok)
    moreover have "map_of ?rooms' r = Some ?room'"
      by (simp add: map_of_set_prop)
    ultimately show ?thesis
      using ok1 [of "realm w"]
      by (simp add: room_messages_def get_messages_def saveRooms_ok)
  next
    case (2 room)
    let ?room1 = "room\<lparr>messages := Some []\<rparr>"
    let ?rooms1 = "set_prop r ?room1 (stored w)"
    let ?room' = "?room1\<lparr>messages := Some (set_prop ?id ?msg [])\<rparr>"
    let ?rooms' = "set_prop r ?room' ?rooms1"
    have target: "get_room (realm w) (stored w) r = Room_object room"
      using 2(1) by (rule get_room_stored)
    have none: "get_messages (realm w) (Room_object room) = Absent"
      using 2(2,3) by (simp add: get_messages_def inherited_messages_def)
    have init: "init_messages r (stored w, realm w) = (?rooms1, realm w)"
      by (simp add: init_messages_def target)
    have target1: "get_room (realm w) ?rooms1 r = Room_object ?room1"
      by (rule get_room_stored) (simp add: map_of_set_prop)
    have own1: "get_messages (realm w) (Room_object ?room1) = Of_room []"
      by (simp add: get_messages_def)
    have put: "put_message r ?id ?msg (?rooms1, realm w) = (?rooms', realm w)"
      by (simp add: put_message_def target1 own1)
    have "sendMessage r u t now_id random now_ts w = saveRooms ?rooms' (?w1\<lparr>realm := realm w\<rparr>)"
      by (simp add: sendMessage_unfold target none truthy_def init put Let_def)
    moreover have "stored (saveRooms ?rooms' (?w1\<lparr>realm := realm w\<rparr>)) = ?rooms'"
      using ok1 by (rule stored_saveRooms_ok)
    moreover have "map_of ?rooms' r = Some ?room'"
      by (simp add: map_of_set_prop)
    ultimately show ?thesis
      using ok1 [of "realm w"] 2(4)
      by (simp add: room_messages_def get_messages_def saveRooms_ok)
  qed
qed



text \<open>
  The scenario of the specification: the room is created once, the second creation
  collides, and the subscription receives first nothing, then Alice's message, then
  Alice's and Bob's in the order of their timestamps.
\<close>

lemma scenario:
  "fst (createRoom ''123456'' 0 fresh_world) = True
   \<and> fst (createRoom ''123456'' 1 (snd (createRoom ''123456'' 0 fresh_world))) = False
   \<and> received (run (subscribe ''123456'' (snd (createRoom ''123456'' 0 fresh_world)))
        [Send ''123456'' ''Alice'' ''hi'' 1 ''0.abc'' 2, Tick,
         Send ''123456'' ''Bob'' ''yo'' 3 ''0.xyz'' 4, Tick])
      = [Messages [], Messages [alice_message], Messages [alice_message, bob_later]]"
proof -
  let ?w2 = "sendMessage ''123456'' ''Bob'' ''yo'' 3 ''0.xyz'' 4 alice_world"
  have ok: "\<not> disabled (localStorage alice_world)" "\<not> full (localStorage alice_world)"
    by (simp_all add: alice_world_def)
  have "room_messages alice_world ''123456'' = Some [(''1abc'', alice_message)]"
    by (simp add: room_messages_def stored_alice_world get_messages_def)
  from send_room_messages [OF ok this, of "''Bob''" "''yo''" 3 "''0.xyz''" 4]
  have "room_messages ?w2 ''123456'' = Some [(''1abc'', alice_message), (''3xyz'', bob_later)]"
    by (simp add: messageId_3xyz set_prop_def bob_later_def is_array_index_def is_digit_def)
  then have "message_list (realm ?w2) (stored ?w2) ''123456''
      = Messages [alice_message, bob_later]"
    by (simp add: message_list_room_messages Object_values_def alice_message_def bob_later_def)
  moreover have "fst (createRoom ''123456'' 1 room_world) = False"
    by (simp add: createRoom_unfold stored_room_world get_room_def truthy_def)
  ultimately show ?thesis
    by (simp add: createRoom_fresh run_def subscribe_room_world send_alice
        deliver_checkMessages getRooms_alice_world message_list_alice_world getRooms_realm
        stored_getRooms)
qed










text \<open>
  When the write is refused the message is not stored, and the next list lacks it.
\<close>

lemma sendMessage_refused:
  assumes "disabled (localStorage w) \<or> full (localStorage w)"
  shows "stored (sendMessage r u t now_id random now_ts w) = stored w"
proof -
  have "disabled (localStorage (snd (getRooms w)\<lparr>realm := x\<rparr>))
      \<or> full (localStorage (snd (getRooms w)\<lparr>realm := x\<rparr>))" for x
    using assms by (simp add: getRooms_localStorage)
  then have "localStorage (sendMessage r u t now_id random now_ts w) = localStorage w"
    by (simp add: sendMessage_unfold Let_def saveRooms_refused getRooms_localStorage)
  then show ?thesis by (rule stored_cong)
qed

lemma send_refused_not_delivered:
  "received (run (subscribe ''123456'' one_room_full_world)
      [Send ''123456'' ''Alice'' ''hi'' 1 ''0.abc'' 2, Tick])
     = [Messages [], Messages []]"
proof -
  let ?w = "sendMessage ''123456'' ''Alice'' ''hi'' 1 ''0.abc'' 2 (snd (getRooms one_room_full_world))"
  have full: "disabled (localStorage (snd (getRooms one_room_full_world)))
      \<or> full (localStorage (snd (getRooms one_room_full_world)))"
    by (simp add: getRooms_localStorage one_room_full_world_def)
  have "stored ?w = stored one_room_full_world"
    using sendMessage_refused [OF full] by (simp add: stored_getRooms)
  then have st: "stored ?w = [(''123456'', \<lparr>createdAt = 1, messages = Some []\<rparr>)]"
    by (simp add: stored_one_room_full_world)
  have ml: "message_list rl [(''123456'', \<lparr>createdAt = 1, messages = Some []\<rparr>)] ''123456''
      = Messages []" for rl
    by (simp add: message_list_own_table Object_values_def)
  show ?thesis
    by (simp add: run_def subscribe_unfold deliver_checkMessages st ml
        stored_one_room_full_world)
qed

subsection \<open>What creating a room and sending a message leave alone\<close>

lemma init_messages_rooms:
  "fst (init_messages r (rooms, rl))
     = (case map_of rooms r of
          Some room \<Rightarrow> set_prop r (room\<lparr>messages := Some []\<rparr>) rooms
        | None \<Rightarrow> rooms)"
proof (cases "map_of rooms r")
  case None
  then have "\<forall>room. get_room rl rooms r \<noteq> Room_object room"
    by (simp add: get_room_None)
  then have "fst (init_messages r (rooms, rl)) = rooms"
    by (cases "get_room rl rooms r") (simp_all add: init_messages_def)
  then show ?thesis using None by simp
next
  case (Some room)
  then have "get_room rl rooms r = Room_object room"
    by (rule get_room_stored)
  then show ?thesis using Some by (simp add: init_messages_def)
qed

lemma init_messages_realm:
  "map_of rooms r = Some room \<Longrightarrow> snd (init_messages r (rooms, rl)) = rl"
  by (simp add: init_messages_def get_room_def)

lemma put_message_rooms:
  "fst (put_message r k v (rooms, rl))
     = (case map_of rooms r of
          Some room \<Rightarrow>
            (case messages room of
               Some m \<Rightarrow> set_prop r (room\<lparr>messages := Some (set_prop k v m)\<rparr>) rooms
             | None \<Rightarrow> rooms)
        | None \<Rightarrow> rooms)"
proof (cases "map_of rooms r")
  case None
  then have "\<forall>room. get_room rl rooms r \<noteq> Room_object room"
    by (simp add: get_room_None)
  then have "fst (put_message r k v (rooms, rl)) = rooms"
    by (cases "get_room rl rooms r"; cases "get_messages rl (get_room rl rooms r)")
      (simp_all add: put_message_def)
  then show ?thesis using None by simp
next
  case (Some room)
  then have target: "get_room rl rooms r = Room_object room"
    by (rule get_room_stored)
  show ?thesis
  proof (cases "messages room")
    case None
    then have "get_messages rl (Room_object room) = inherited_messages rl"
      by (simp add: get_messages_def)
    then have "fst (put_message r k v (rooms, rl)) = rooms"
      by (cases "prototype_messages rl") (simp_all add: put_message_def target inherited_messages_def)
    then show ?thesis using Some None by simp
  next
    case m: (Some m)
    then have "get_messages rl (Room_object room) = Of_room m"
      by (simp add: get_messages_def)
    then show ?thesis using Some m by (simp add: put_message_def target)
  qed
qed

lemma sendMessage_saved:
  assumes "truthy (get_room (realm w) (stored w) r)"
  obtains rooms1 rl1 rooms2 rl2 where
    "rooms1 = (if get_messages (realm w) (get_room (realm w) (stored w) r) = Absent
               then fst (init_messages r (stored w, realm w)) else stored w)"
    "rooms2 = fst (put_message r (messageId_of now_id random)
                \<lparr>id' = messageId_of now_id random, text' = t, username = u,
                 timestamp = now_ts\<rparr> (rooms1, rl1))"
    "stored (sendMessage r u t now_id random now_ts w) = stored w
     \<or> stored (sendMessage r u t now_id random now_ts w) = rooms2"
proof -
  let ?id = "messageId_of now_id random"
  let ?msg = "\<lparr>id' = ?id, text' = t, username = u, timestamp = now_ts\<rparr>"
  let ?heap = "(stored w, realm w)"
  let ?absent = "get_messages (realm w) (get_room (realm w) (stored w) r) = Absent"
  define heap1 where "heap1 = (if ?absent then init_messages r ?heap else ?heap)"
  define heap2 where "heap2 = put_message r ?id ?msg heap1"
  let ?w1 = "snd (getRooms w)"
  have w': "sendMessage r u t now_id random now_ts w
      = saveRooms (fst heap2) (?w1\<lparr>realm := snd heap2\<rparr>)"
    using assms by (simp add: sendMessage_unfold Let_def heap1_def heap2_def)
  have "stored (?w1\<lparr>realm := snd heap2\<rparr>) = stored w"
    by (rule stored_cong) (simp add: getRooms_localStorage)
  then have after: "stored (sendMessage r u t now_id random now_ts w) = stored w
     \<or> stored (sendMessage r u t now_id random now_ts w) = fst heap2"
    by (simp add: w' stored_saveRooms)
  have one: "fst heap1 = (if ?absent then fst (init_messages r ?heap) else stored w)"
    by (simp add: heap1_def)
  have two: "fst heap2 = fst (put_message r ?id ?msg (fst heap1, snd heap1))"
    by (simp add: heap2_def)
  from one two after show thesis
    by (rule that)
qed

lemma sendMessage_stored:
  "stored (sendMessage r u t now_id random now_ts w) = stored w
   \<or> (\<exists>room room'. map_of (stored w) r = Some room
        \<and> createdAt room' = createdAt room
        \<and> messages room' =
            Some (set_prop (messageId_of now_id random)
                   \<lparr>id' = messageId_of now_id random, text' = t, username = u,
                    timestamp = now_ts\<rparr>
                   (case messages room of Some m \<Rightarrow> m | None \<Rightarrow> []))
        \<and> map_of (stored (sendMessage r u t now_id random now_ts w))
            = (map_of (stored w))(r \<mapsto> room'))"
proof (cases "truthy (get_room (realm w) (stored w) r)")
  case False
  then show ?thesis by (simp add: sendMessage_unfold stored_getRooms)
next
  case True
  let ?id = "messageId_of now_id random"
  let ?msg = "\<lparr>id' = ?id, text' = t, username = u, timestamp = now_ts\<rparr>"
  let ?absent = "get_messages (realm w) (get_room (realm w) (stored w) r) = Absent"
  let ?w' = "sendMessage r u t now_id random now_ts w"
  from True obtain rooms1 rl1 rooms2 rl2 where
    rooms1: "rooms1 = (if ?absent then fst (init_messages r (stored w, realm w)) else stored w)"
    and rooms2: "rooms2 = fst (put_message r ?id ?msg (rooms1, rl1))"
    and after: "stored ?w' = stored w \<or> stored ?w' = rooms2"
    by (rule sendMessage_saved [of w r now_id random t u now_ts])
  show ?thesis
  proof (cases "map_of (stored w) r")
    case None
    then have "rooms1 = stored w"
      by (simp add: rooms1 init_messages_rooms)
    then have "rooms2 = stored w"
      using None by (simp add: rooms2 put_message_rooms)
    then show ?thesis using after by simp
  next
    case (Some room)
    then have target: "get_room (realm w) (stored w) r = Room_object room"
      by (rule get_room_stored)
    let ?m = "case messages room of Some m \<Rightarrow> m | None \<Rightarrow> []"
    let ?room' = "room\<lparr>messages := Some (set_prop ?id ?msg ?m)\<rparr>"
    have saved: "rooms2 = stored w \<or> map_of rooms2 = (map_of (stored w))(r \<mapsto> ?room')"
    proof (cases "messages room")
      case m: (Some m)
      then have "rooms1 = stored w"
        by (simp add: rooms1 target get_messages_def)
      then show ?thesis
        using Some m by (simp add: rooms2 put_message_rooms map_of_set_prop)
    next
      case None
      show ?thesis
      proof (cases ?absent)
        case True
        then have "rooms1 = set_prop r (room\<lparr>messages := Some []\<rparr>) (stored w)"
          using Some by (simp add: rooms1 init_messages_rooms)
        then show ?thesis
          using None by (simp add: rooms2 put_message_rooms map_of_set_prop)
      next
        case False
        then have "rooms1 = stored w"
          by (simp add: rooms1)
        then show ?thesis
          using Some None by (simp add: rooms2 put_message_rooms)
      qed
    qed
    have "stored ?w' = stored w \<or> map_of (stored ?w') = (map_of (stored w))(r \<mapsto> ?room')"
      using saved after by metis
    moreover have "createdAt ?room' = createdAt room" by simp
    moreover have "messages ?room' = Some (set_prop ?id ?msg ?m)" by simp
    ultimately show ?thesis using Some by blast
  qed
qed

lemma createRoom_stored:
  "stored (snd (createRoom r now w)) = stored w
   \<or> stored (snd (createRoom r now w))
       = set_prop r \<lparr>createdAt = now, messages = Some []\<rparr> (stored w)"
  by (simp add: createRoom_unfold stored_saveRooms stored_getRooms getRooms_localStorage)

text \<open>
  C10. \<open>createRoom r\<close> and \<open>sendMessage r\<close> leave the stored entry of every other room
  identifier \<open>r'\<close> as it was. \<open>sendMessage r\<close> keeps a stored room \<open>r\<close> stored with its
  \<open>createdAt\<close>, and keeps, in the room's message table, what is stored under every
  identifier \<open>k\<close> other than that of the new message.
\<close>

theorem others_unchanged:
  "(r' \<noteq> r \<longrightarrow>
      map_of (stored (snd (createRoom r now w))) r' = map_of (stored w) r')
   \<and> (r' \<noteq> r \<longrightarrow>
      map_of (stored (sendMessage r u t now_id random now_ts w)) r' = map_of (stored w) r')
   \<and> (map_of (stored w) r = Some room \<longrightarrow>
      (\<exists>room'. map_of (stored (sendMessage r u t now_id random now_ts w)) r = Some room'
         \<and> createdAt room' = createdAt room
         \<and> (messages room = Some m \<and> k \<noteq> messageId_of now_id random \<longrightarrow>
              (\<exists>m'. messages room' = Some m' \<and> map_of m' k = map_of m k))))"
proof -
  let ?w' = "sendMessage r u t now_id random now_ts w"
  let ?id = "messageId_of now_id random"
  have create: "map_of (stored (snd (createRoom r now w))) r' = map_of (stored w) r'"
    if "r' \<noteq> r"
    using createRoom_stored [of r now w] that by (auto simp: map_of_set_prop)
  have send: "map_of (stored ?w') r' = map_of (stored w) r'" if "r' \<noteq> r"
  proof -
    from sendMessage_stored [of r u t now_id random now_ts w]
    consider "stored ?w' = stored w"
      | room' where "map_of (stored ?w') = (map_of (stored w))(r \<mapsto> room')"
      by blast
    then show ?thesis using that by cases simp_all
  qed
  have room: "\<exists>room'. map_of (stored ?w') r = Some room'
         \<and> createdAt room' = createdAt room
         \<and> (messages room = Some m \<and> k \<noteq> ?id \<longrightarrow>
              (\<exists>m'. messages room' = Some m' \<and> map_of m' k = map_of m k))"
    if stored: "map_of (stored w) r = Some room"
  proof -
    from sendMessage_stored [of r u t now_id random now_ts w] stored
    consider "stored ?w' = stored w"
      | room' where "createdAt room' = createdAt room"
          "messages room' = Some (set_prop ?id
              \<lparr>id' = ?id, text' = t, username = u, timestamp = now_ts\<rparr>
              (case messages room of Some m \<Rightarrow> m | None \<Rightarrow> []))"
          "map_of (stored ?w') = (map_of (stored w))(r \<mapsto> room')"
      by auto
    then show ?thesis
    proof cases
      case 1
      then show ?thesis using stored by simp
    next
      case (2 room')
      then show ?thesis by (simp add: map_of_set_prop)
    qed
  qed
  from create send room show ?thesis by blast
qed

theorem others_unchanged_witness:
  "map_of (stored (snd (createRoom ''123456'' 9 two_room_world))) ''654321''
     = Some \<lparr>createdAt = 5, messages = Some []\<rparr>
   \<and> map_of (stored (sendMessage ''123456'' ''Bob'' ''yo'' 3 ''0.xyz'' 4 two_room_world)) ''654321''
     = Some \<lparr>createdAt = 5, messages = Some []\<rparr>
   \<and> (\<exists>room'. map_of (stored (sendMessage ''123456'' ''Bob'' ''yo'' 3 ''0.xyz'' 4 two_room_world))
                 ''123456'' = Some room'
         \<and> createdAt room' = 0
         \<and> (\<exists>m'. messages room' = Some m' \<and> map_of m' ''1abc'' = Some alice_message))"
  using others_unchanged [of "''654321''" "''123456''" 9 two_room_world "''Bob''" "''yo''" 3
      "''0.xyz''" 4 "\<lparr>createdAt = 0, messages = Some [(''1abc'', alice_message)]\<rparr>"
      "[(''1abc'', alice_message)]" "''1abc''"]
  by (simp add: stored_two_room_world messageId_3xyz)

text \<open>
  A message whose identifier equals that of a stored message replaces it.
\<close>

theorem others_unchanged_counterexample:
  "map_of (stored alice_world) ''123456''
     = Some \<lparr>createdAt = 0, messages = Some [(''1abc'', alice_message)]\<rparr>
   \<and> map_of (stored (sendMessage ''123456'' ''Bob'' ''yo'' 1 ''0.abc'' 3 alice_world)) ''123456''
     = Some \<lparr>createdAt = 0, messages = Some [(''1abc'', bob_message)]\<rparr>
   \<and> alice_message \<noteq> bob_message"
  by (simp add: send_bob stored_alice_world stored_bob_world alice_message_def bob_message_def)

end
